theory Spec2Isabelle
  imports Main
begin

section \<open>Authentication routes of PythonGram (src/routes/auth.py)\<close>

text \<open>
  The four route handlers \<open>signup\<close>, \<open>login\<close>, \<open>refresh_token\<close> and \<open>logout\<close> are
  embedded as functions that take the database contents and return the handler's outcome
  together with the database contents afterwards. A raised exception is the \<open>Inl\<close> branch
  of the outcome; the database is returned in that case too, because \<open>refresh_token\<close>
  writes to it before raising.
\<close>

subsection \<open>Exceptions and HTTP status codes\<close>

text \<open>
  \<open>HTTPException status_code detail\<close> is FastAPI's exception. \<open>AttributeError a\<close> is the
  Python exception raised when attribute \<open>a\<close> is read on \<open>None\<close>.
\<close>

datatype error = HTTPException nat string | AttributeError string

definition HTTP_409_CONFLICT :: nat where
  "HTTP_409_CONFLICT = 409"

definition HTTP_401_UNAUTHORIZED :: nat where
  "HTTP_401_UNAUTHORIZED = 401"

subsection \<open>Data model\<close>

text \<open>
  The entity \<open>User\<close> (src/entity/models.py is not among the sources): the fields are those the
  handlers read and the specification lists: internal id, email, username (\<open>full_name\<close>),
  password hash, ban flag and nullable refresh token. Field \<open>f\<close> of the source is
  \<open>user_f\<close> here; \<open>id\<close> is \<open>user_id\<close>.
\<close>

record User =
  user_id :: nat
  user_email :: string
  user_full_name :: string
  user_password :: string
  user_ban :: bool
  user_refresh_token :: "string option"

text \<open>The request body of signup (\<open>UserSchema\<close>): \<open>body.full_name\<close>, \<open>body.email\<close>, \<open>body.password\<close>.\<close>

record UserSchema =
  schema_full_name :: string
  schema_email :: string
  schema_password :: string

text \<open>The password-grant form of login: \<open>body.username\<close>, \<open>body.password\<close>.\<close>

record OAuth2PasswordRequestForm =
  form_username :: string
  form_password :: string

text \<open>The bearer credential of refresh: \<open>credentials.scheme\<close>, \<open>credentials.credentials\<close>.\<close>

record HTTPAuthorizationCredentials =
  cred_scheme :: string
  cred_credentials :: string

text \<open>
  What the session \<open>db\<close> gives access to: the user rows in insertion order, and the
  blacklist entries, each a user id with the token value that was blacklisted.
\<close>

record db =
  users :: "User list"
  blacklist :: "(nat \<times> string option) list"

text \<open>A JSON object with string values, in the order the source writes its keys.\<close>

type_synonym json_object = "(string \<times> string) list"

subsection \<open>The auth service\<close>

text \<open>
  \<open>auth_service\<close> (src/services/auth.py) is not among the sources, and the specification
  gives only the signatures of its operations. They are parameters of the handlers. Each
  takes, after the arguments of the source, the ambient state \<open>env\<close> of the request (clock,
  entropy, configuration) that the operation may read, so that two requests need not be
  issued the same token for the same claims.
\<close>

record 'e auth_service =
  get_password_hash :: "string \<Rightarrow> 'e \<Rightarrow> string"
  verify_password :: "string \<Rightarrow> string \<Rightarrow> 'e \<Rightarrow> bool"
  create_access_token :: "json_object \<Rightarrow> 'e \<Rightarrow> string"
  create_refresh_token :: "json_object \<Rightarrow> 'e \<Rightarrow> string"
  decode_refresh_token :: "string \<Rightarrow> 'e \<Rightarrow> error + string"

text \<open>
  Modelled from the spec: \<open>add_token_to_blacklist(userId, token) -> void\<close> of the auth service,
  which is not among the sources. It "adds the user's current refresh token to the blacklist,
  keyed by user id", one insertion, and touches nothing else.
\<close>

definition add_token_to_blacklist :: "nat \<Rightarrow> string option \<Rightarrow> db \<Rightarrow> db" where
  "add_token_to_blacklist uid token db = db\<lparr>blacklist := blacklist db @ [(uid, token)]\<rparr>"

subsection \<open>The user repository\<close>

text \<open>
  Modelled from the spec: \<open>get_user_by_username(name) -> User|None\<close> of the user repository
  (src/repository/users.py), which is not among the sources: the stored user with that
  username, if any; a read without effect.
\<close>

definition get_user_by_username :: "string \<Rightarrow> db \<Rightarrow> User option" where
  "get_user_by_username name db = find (\<lambda>u. user_full_name u = name) (users db)"

text \<open>
  Modelled from the spec: \<open>get_user_by_email(email) -> User|None\<close> of the user repository,
  which is not among the sources: the stored user with that email, if any; a read without
  effect.
\<close>

definition get_user_by_email :: "string \<Rightarrow> db \<Rightarrow> User option" where
  "get_user_by_email email db = find (\<lambda>u. user_email u = email) (users db)"

text \<open>
  Modelled from the spec: \<open>create_user(data) -> User\<close> of the user repository, which is not
  among the sources: "persists a new user record", "one new persisted record". The record
  takes username, email and password from the body as given, an id no stored user has, no
  ban and no refresh token.
\<close>

definition create_user :: "UserSchema \<Rightarrow> db \<Rightarrow> User \<times> db" where
  "create_user body db =
     (let new_user =
        \<lparr>user_id = Suc (fold max (map user_id (users db)) 0),
         user_email = schema_email body,
         user_full_name = schema_full_name body,
         user_password = schema_password body,
         user_ban = False,
         user_refresh_token = None\<rparr>
      in (new_user, db\<lparr>users := users db @ [new_user]\<rparr>))"

text \<open>
  Modelled from the spec: \<open>update_token(user, token|None) -> void\<close> of the user repository,
  which is not among the sources: it persists \<open>token\<close> as the stored refresh token of the
  row of \<open>user\<close> (the row with the user's id), overwriting any prior value.
\<close>

definition update_token :: "User \<Rightarrow> string option \<Rightarrow> db \<Rightarrow> db" where
  "update_token user token db =
     db\<lparr>users :=
          map (\<lambda>u. if user_id u = user_id user then u\<lparr>user_refresh_token := token\<rparr> else u)
            (users db)\<rparr>"

subsection \<open>The route handlers\<close>

text \<open>\<open>signup\<close>, lines 16 to 35. \<open>if exist_user\<close> is the test that a user was found.\<close>

definition signup ::
  "'e auth_service \<Rightarrow> 'e \<Rightarrow> UserSchema \<Rightarrow> db \<Rightarrow> (error + User) \<times> db" where
  "signup auth_service env body db =
     (let exist_user = get_user_by_username (schema_full_name body) db in
      if exist_user \<noteq> None then
        (Inl (HTTPException HTTP_409_CONFLICT ''Account already exists''), db)
      else
        let body = body\<lparr>schema_password :=
                     get_password_hash auth_service (schema_password body) env\<rparr>;
            (new_user, db) = create_user body db
        in (Inr new_user, db))"

text \<open>\<open>login\<close>, lines 39 to 65.\<close>

definition login ::
  "'e auth_service \<Rightarrow> 'e \<Rightarrow> OAuth2PasswordRequestForm \<Rightarrow> db \<Rightarrow> (error + json_object) \<times> db" where
  "login auth_service env body db =
     (case get_user_by_username (form_username body) db of
        None \<Rightarrow> (Inl (HTTPException HTTP_401_UNAUTHORIZED ''Invalid email''), db)
      | Some user \<Rightarrow>
          if \<not> verify_password auth_service (form_password body) (user_password user) env then
            (Inl (HTTPException HTTP_401_UNAUTHORIZED ''Invalid password''), db)
          else if user_ban user then
            (Inl (HTTPException HTTP_401_UNAUTHORIZED ''You were banned by an administrator''), db)
          else
            let access_token = create_access_token auth_service [(''sub'', user_email user)] env;
                refresh = create_refresh_token auth_service [(''sub'', user_email user)] env;
                db = update_token user (Some refresh) db
            in (Inr [(''access_token'', access_token), (''refresh_token'', refresh),
                     (''token_type'', ''bearer'')], db))"

text \<open>
  \<open>refresh_token\<close>, lines 69 to 94. An exception of \<open>decode_refresh_token\<close> is not caught and
  leaves the handler as it is. When no user has the decoded email, \<open>user\<close> is \<open>None\<close> and
  reading \<open>user.refresh_token\<close> on line 87 raises \<open>AttributeError\<close>.
\<close>

definition refresh_token ::
  "'e auth_service \<Rightarrow> 'e \<Rightarrow> HTTPAuthorizationCredentials \<Rightarrow> db \<Rightarrow> (error + json_object) \<times> db" where
  "refresh_token auth_service env credentials db =
     (let token = cred_credentials credentials in
      case decode_refresh_token auth_service token env of
        Inl e \<Rightarrow> (Inl e, db)
      | Inr email \<Rightarrow>
          (case get_user_by_email email db of
             None \<Rightarrow> (Inl (AttributeError ''refresh_token''), db)
           | Some user \<Rightarrow>
               if user_refresh_token user \<noteq> Some token then
                 (Inl (HTTPException HTTP_401_UNAUTHORIZED ''Invalid refresh token''),
                  update_token user None db)
               else
                 let access_token = create_access_token auth_service [(''sub'', email)] env;
                     refresh = create_refresh_token auth_service [(''sub'', email)] env;
                     db = update_token user (Some refresh) db
                 in (Inr [(''access_token'', access_token), (''refresh_token'', refresh),
                          (''token_type'', ''bearer'')], db)))"

text \<open>
  \<open>logout\<close>, lines 98 to 111. The current user has been resolved by the dependency
  \<open>get_current_user\<close> before the handler runs and is its argument.
\<close>

definition logout :: "User \<Rightarrow> db \<Rightarrow> (error + json_object) \<times> db" where
  "logout user db =
     (let db = add_token_to_blacklist (user_id user) (user_refresh_token user) db
      in (Inr [(''message'', ''Logout successful.'')], db))"

subsection \<open>Databases that differ only in ban flags\<close>

text \<open>
  Two databases are related when they have the same blacklist and the same user rows in the
  same order, up to the value of \<open>ban\<close> in each row.
\<close>

definition differ_only_in_ban :: "db \<Rightarrow> db \<Rightarrow> bool" where
  "differ_only_in_ban db1 db2 =
     (blacklist db1 = blacklist db2
      \<and> list_all2 (\<lambda>u v. v = u\<lparr>user_ban := user_ban v\<rparr>) (users db1) (users db2))"

subsection \<open>A concrete service and database\<close>

text \<open>
  A small auth service over a clock that counts requests, and a database of two users, on
  which the theorems below are exercised. Tokens are the scope, the subject and as many
  ticks as the clock shows; a refresh token decodes to its subject.
\<close>

definition sub_of :: "json_object \<Rightarrow> string" where
  "sub_of data = (case map_of data ''sub'' of None \<Rightarrow> [] | Some s \<Rightarrow> s)"

definition clock_service :: "nat auth_service" where
  "clock_service =
     \<lparr>get_password_hash = (\<lambda>plain env. ''h:'' @ plain),
      verify_password = (\<lambda>plain hashed env. hashed = ''h:'' @ plain),
      create_access_token = (\<lambda>data env. ''a:'' @ sub_of data @ '':'' @ replicate env (CHR ''+'')),
      create_refresh_token = (\<lambda>data env. ''r:'' @ sub_of data @ '':'' @ replicate env (CHR ''+'')),
      decode_refresh_token = (\<lambda>token env.
        if take 2 token = ''r:'' then Inr (takeWhile (\<lambda>c. c \<noteq> CHR '':'') (drop 2 token))
        else Inl (HTTPException HTTP_401_UNAUTHORIZED ''Could not validate credentials''))\<rparr>"

text \<open>
  Two variants of the clock service: one whose refresh tokens can no longer be decoded
  after tick 1, and one whose password hash returns its input.
\<close>

definition expiring_service :: "nat auth_service" where
  "expiring_service =
     clock_service\<lparr>decode_refresh_token := (\<lambda>token env.
        if env \<le> 1 then decode_refresh_token clock_service token env
        else Inl (HTTPException HTTP_401_UNAUTHORIZED ''Could not validate credentials''))\<rparr>"


definition bearer :: "string \<Rightarrow> HTTPAuthorizationCredentials" where
  "bearer token = \<lparr>cred_scheme = ''Bearer'', cred_credentials = token\<rparr>"

definition alice :: User where
  "alice =
     \<lparr>user_id = 1, user_email = ''al@x.io'', user_full_name = ''alice'',
      user_password = ''h:pw1'', user_ban = False, user_refresh_token = Some ''r:al@x.io:''\<rparr>"

definition bob :: User where
  "bob =
     \<lparr>user_id = 2, user_email = ''bob@x.io'', user_full_name = ''bob'',
      user_password = ''h:pw2'', user_ban = True, user_refresh_token = Some ''r:bob@x.io:''\<rparr>"

definition carol :: User where
  "carol =
     \<lparr>user_id = 3, user_email = ''carol@x.io'', user_full_name = ''carol'',
      user_password = ''h:pw3'', user_ban = False, user_refresh_token = None\<rparr>"

definition two_users :: db where
  "two_users = \<lparr>users = [alice, bob], blacklist = []\<rparr>"

subsection \<open>Lookups after an update of the stored token\<close>

lemma find_map_preserved:
  assumes "find P xs = Some u" and "\<And>x. P (f x) = P x"
  shows "find P (map f xs) = Some (f u)"
  using assms by (induction xs) (auto split: if_splits)

lemma get_user_by_email_update_token:
  assumes "get_user_by_email email db = Some user"
  shows "get_user_by_email email (update_token user token db) =
           Some (user\<lparr>user_refresh_token := token\<rparr>)"
proof -
  let ?f = "\<lambda>u. if user_id u = user_id user then u\<lparr>user_refresh_token := token\<rparr> else u"
  have "find (\<lambda>u. user_email u = email) (map ?f (users db)) = Some (?f user)"
    using assms unfolding get_user_by_email_def
    by (rule find_map_preserved) simp
  then show ?thesis
    by (simp add: get_user_by_email_def update_token_def)
qed

lemma get_user_by_username_update_token:
  assumes "get_user_by_username name db = Some user"
  shows "get_user_by_username name (update_token user token db) =
           Some (user\<lparr>user_refresh_token := token\<rparr>)"
proof -
  let ?f = "\<lambda>u. if user_id u = user_id user then u\<lparr>user_refresh_token := token\<rparr> else u"
  have "find (\<lambda>u. user_full_name u = name) (map ?f (users db)) = Some (?f user)"
    using assms unfolding get_user_by_username_def
    by (rule find_map_preserved) simp
  then show ?thesis
    by (simp add: get_user_by_username_def update_token_def)
qed


subsection \<open>The refresh handler on databases that differ only in ban flags\<close>

lemma find_related:
  assumes "list_all2 R xs ys" and "\<And>u v. R u v \<Longrightarrow> P u = Q v"
  shows "rel_option R (find P xs) (find Q ys)"
  using assms by (induction rule: list_all2_induct) auto

lemma get_user_by_email_differ_only_in_ban:
  assumes "differ_only_in_ban db1 db2"
  shows "rel_option (\<lambda>u v. v = u\<lparr>user_ban := user_ban v\<rparr>)
           (get_user_by_email email db1) (get_user_by_email email db2)"
proof -
  have rows: "list_all2 (\<lambda>u v. v = u\<lparr>user_ban := user_ban v\<rparr>) (users db1) (users db2)"
    using assms by (simp add: differ_only_in_ban_def)
  have "(user_email u = email) = (user_email v = email)"
    if "v = u\<lparr>user_ban := user_ban v\<rparr>" for u v :: User
  proof -
    have "user_email v = user_email (u\<lparr>user_ban := user_ban v\<rparr>)"
      using that by simp
    then show ?thesis by simp
  qed
  with rows show ?thesis
    unfolding get_user_by_email_def by (rule find_related)
qed

lemma update_token_differ_only_in_ban:
  assumes "differ_only_in_ban db1 db2" and "v = u\<lparr>user_ban := user_ban v\<rparr>"
  shows "differ_only_in_ban (update_token u token db1) (update_token v token db2)"
proof -
  have ids: "user_id v = user_id u"
  proof -
    have "user_id v = user_id (u\<lparr>user_ban := user_ban v\<rparr>)"
      using assms(2) by simp
    then show ?thesis by simp
  qed
  have rows: "list_all2 (\<lambda>x y. y = x\<lparr>user_ban := user_ban y\<rparr>) (users db1) (users db2)"
    using assms(1) by (simp add: differ_only_in_ban_def)
  have "list_all2 (\<lambda>x y. (if user_id y = user_id u then y\<lparr>user_refresh_token := token\<rparr> else y) =
            (if user_id x = user_id u then x\<lparr>user_refresh_token := token\<rparr> else x)
              \<lparr>user_ban := user_ban (if user_id y = user_id u then y\<lparr>user_refresh_token := token\<rparr> else y)\<rparr>)
          (users db1) (users db2)"
    using rows
  proof (rule list_all2_mono)
    fix x y :: User
    assume r: "y = x\<lparr>user_ban := user_ban y\<rparr>"
    obtain b where y: "y = x\<lparr>user_ban := b\<rparr>"
      using r by blast
    show "(if user_id y = user_id u then y\<lparr>user_refresh_token := token\<rparr> else y) =
            (if user_id x = user_id u then x\<lparr>user_refresh_token := token\<rparr> else x)
              \<lparr>user_ban := user_ban (if user_id y = user_id u then y\<lparr>user_refresh_token := token\<rparr> else y)\<rparr>"
      by (simp add: y)
  qed
  then show ?thesis
    using assms(1) by (simp add: differ_only_in_ban_def update_token_def ids list_all2_map1 list_all2_map2)
qed

lemma refresh_token_differ_only_in_ban:
  assumes "differ_only_in_ban db1 db2"
  shows "fst (refresh_token auth_service env credentials db1) =
           fst (refresh_token auth_service env credentials db2)
         \<and> differ_only_in_ban (snd (refresh_token auth_service env credentials db1))
             (snd (refresh_token auth_service env credentials db2))"
proof (cases "decode_refresh_token auth_service (cred_credentials credentials) env")
  case (Inl e)
  then show ?thesis
    using assms by (simp add: refresh_token_def Let_def)
next
  case (Inr email)
  have "rel_option (\<lambda>u v. v = u\<lparr>user_ban := user_ban v\<rparr>)
      (get_user_by_email email db1) (get_user_by_email email db2)"
    using assms by (rule get_user_by_email_differ_only_in_ban)
  then show ?thesis
  proof (cases rule: option.rel_cases)
    case None
    then show ?thesis
      using Inr assms by (simp add: refresh_token_def Let_def)
  next
    case (Some u v)
    obtain b where v: "v = u\<lparr>user_ban := b\<rparr>"
      using Some(3) by blast
    have stored: "user_refresh_token v = user_refresh_token u"
      by (simp add: v)
    have upd: "differ_only_in_ban (update_token u token db1) (update_token v token db2)" for token
      using assms Some(3) by (rule update_token_differ_only_in_ban)
    show ?thesis
      using Inr Some(1,2) stored upd by (simp add: refresh_token_def Let_def)
  qed
qed

lemma user_ban_update_token:
  "map user_ban (users (update_token user token db)) = map user_ban (users db)"
  by (simp add: update_token_def comp_def if_distrib [of user_ban] cong: if_cong)

lemma refresh_token_keeps_ban:
  "map user_ban (users (snd (refresh_token auth_service env credentials db))) =
     map user_ban (users db)"
  by (simp add: refresh_token_def Let_def user_ban_update_token split: sum.split option.split)

subsection \<open>The concrete service and database, evaluated\<close>

lemma clock_service_simps:
  "get_password_hash clock_service plain env = ''h:'' @ plain"
  "verify_password clock_service plain hashed env = (hashed = ''h:'' @ plain)"
  "create_access_token clock_service data env = ''a:'' @ sub_of data @ '':'' @ replicate env (CHR ''+'')"
  "create_refresh_token clock_service data env = ''r:'' @ sub_of data @ '':'' @ replicate env (CHR ''+'')"
  "decode_refresh_token clock_service token env =
     (if take 2 token = ''r:'' then Inr (takeWhile (\<lambda>c. c \<noteq> CHR '':'') (drop 2 token))
      else Inl (HTTPException HTTP_401_UNAUTHORIZED ''Could not validate credentials''))"
  by (simp_all add: clock_service_def)

lemma two_users_lookups:
  "get_user_by_email ''al@x.io'' two_users = Some alice"
  "get_user_by_email ''bob@x.io'' two_users = Some bob"
  "get_user_by_email ''carol@x.io'' two_users = None"
  "get_user_by_username ''alice'' two_users = Some alice"
  "get_user_by_username ''bob'' two_users = Some bob"
  "get_user_by_username ''carol'' two_users = None"
  by (simp_all add: get_user_by_email_def get_user_by_username_def two_users_def alice_def bob_def)

lemma two_users_updates:
  "update_token alice token two_users = \<lparr>users = [alice\<lparr>user_refresh_token := token\<rparr>, bob], blacklist = []\<rparr>"
  "update_token alice token' \<lparr>users = [alice\<lparr>user_refresh_token := token\<rparr>, bob], blacklist = []\<rparr>
     = \<lparr>users = [alice\<lparr>user_refresh_token := token'\<rparr>, bob], blacklist = []\<rparr>"
  "update_token bob token two_users = \<lparr>users = [alice, bob\<lparr>user_refresh_token := token\<rparr>], blacklist = []\<rparr>"
  by (simp_all add: update_token_def two_users_def alice_def bob_def)

subsection \<open>The handlers' contracts\<close>

text \<open>
  Claim C1, as amended. When the presented token decodes to an email, the user stored under
  that email is found and that user's stored refresh token equals the presented token, the
  refresh handler returns the pair of tokens the service issues for that email and the
  stored refresh token of the user becomes the newly issued one. Presenting the old token
  again on the resulting database then fails with 401 "Invalid refresh token" and leaves
  the stored token cleared, provided the newly issued refresh token is not the old token
  and the old token still decodes to the same email.
\<close>

theorem refresh_token_rotates:
  assumes dec: "decode_refresh_token auth_service (cred_credentials credentials) env = Inr email"
    and lk: "get_user_by_email email db = Some user"
    and st: "user_refresh_token user = Some (cred_credentials credentials)"
  shows "let access_token = create_access_token auth_service [(''sub'', email)] env;
             refresh = create_refresh_token auth_service [(''sub'', email)] env;
             db' = update_token user (Some refresh) db
         in refresh_token auth_service env credentials db =
              (Inr [(''access_token'', access_token), (''refresh_token'', refresh),
                    (''token_type'', ''bearer'')], db')
          \<and> get_user_by_email email db' = Some (user\<lparr>user_refresh_token := Some refresh\<rparr>)
          \<and> (\<forall>env'. refresh \<noteq> cred_credentials credentials
                 \<and> decode_refresh_token auth_service (cred_credentials credentials) env' = Inr email
               \<longrightarrow> refresh_token auth_service env' credentials db' =
                     (Inl (HTTPException 401 ''Invalid refresh token''), update_token user None db')
                 \<and> get_user_by_email email (update_token user None db') =
                     Some (user\<lparr>user_refresh_token := None\<rparr>))"
proof -
  define access_token where "access_token = create_access_token auth_service [(''sub'', email)] env"
  define refresh where "refresh = create_refresh_token auth_service [(''sub'', email)] env"
  define db' where "db' = update_token user (Some refresh) db"
  let ?user' = "user\<lparr>user_refresh_token := Some refresh\<rparr>"
  have first: "refresh_token auth_service env credentials db =
      (Inr [(''access_token'', access_token), (''refresh_token'', refresh),
            (''token_type'', ''bearer'')], db')"
    using dec lk st by (simp add: refresh_token_def Let_def access_token_def refresh_def db'_def)
  have stored: "get_user_by_email email db' = Some ?user'"
    unfolding db'_def using lk by (rule get_user_by_email_update_token)
  have same_row: "update_token ?user' None db' = update_token user None db'"
    by (simp add: update_token_def)
  have second: "refresh_token auth_service env' credentials db' =
        (Inl (HTTPException 401 ''Invalid refresh token''), update_token user None db')
      \<and> get_user_by_email email (update_token user None db') =
          Some (user\<lparr>user_refresh_token := None\<rparr>)"
    if new: "refresh \<noteq> cred_credentials credentials"
      and dec': "decode_refresh_token auth_service (cred_credentials credentials) env' = Inr email"
    for env'
  proof -
    have "refresh_token auth_service env' credentials db' =
        (Inl (HTTPException 401 ''Invalid refresh token''), update_token ?user' None db')"
      using dec' stored new by (simp add: refresh_token_def Let_def HTTP_401_UNAUTHORIZED_def)
    moreover have "get_user_by_email email (update_token ?user' None db') =
        Some (?user'\<lparr>user_refresh_token := None\<rparr>)"
      using stored by (rule get_user_by_email_update_token)
    ultimately show ?thesis by (simp add: same_row)
  qed
  show ?thesis
    unfolding Let_def access_token_def [symmetric] refresh_def [symmetric] db'_def [symmetric]
    using first stored second by blast
qed

theorem refresh_token_rotates_witness:
  "decode_refresh_token clock_service (cred_credentials (bearer ''r:al@x.io:'')) (1::nat) = Inr ''al@x.io''
   \<and> get_user_by_email ''al@x.io'' two_users = Some alice
   \<and> user_refresh_token alice = Some (cred_credentials (bearer ''r:al@x.io:''))
   \<and> refresh_token clock_service 1 (bearer ''r:al@x.io:'') two_users =
        (Inr [(''access_token'', ''a:al@x.io:+''), (''refresh_token'', ''r:al@x.io:+''),
              (''token_type'', ''bearer'')],
         \<lparr>users = [alice\<lparr>user_refresh_token := Some ''r:al@x.io:+''\<rparr>, bob], blacklist = []\<rparr>)
   \<and> create_refresh_token clock_service [(''sub'', ''al@x.io'')] (1::nat) \<noteq> cred_credentials (bearer ''r:al@x.io:'')
   \<and> decode_refresh_token clock_service (cred_credentials (bearer ''r:al@x.io:'')) (2::nat) = Inr ''al@x.io''
   \<and> refresh_token clock_service 2 (bearer ''r:al@x.io:'')
        \<lparr>users = [alice\<lparr>user_refresh_token := Some ''r:al@x.io:+''\<rparr>, bob], blacklist = []\<rparr> =
        (Inl (HTTPException 401 ''Invalid refresh token''),
         \<lparr>users = [alice\<lparr>user_refresh_token := None\<rparr>, bob], blacklist = []\<rparr>)
   \<and> get_user_by_email ''al@x.io'' \<lparr>users = [alice\<lparr>user_refresh_token := None\<rparr>, bob], blacklist = []\<rparr>
        = Some (alice\<lparr>user_refresh_token := None\<rparr>)"
proof -
  have dec: "decode_refresh_token clock_service (cred_credentials (bearer ''r:al@x.io:'')) env = Inr ''al@x.io''"
    for env :: nat
    by (simp add: clock_service_simps bearer_def)
  have lk: "get_user_by_email ''al@x.io'' two_users = Some alice"
    by (rule two_users_lookups)
  have st: "user_refresh_token alice = Some (cred_credentials (bearer ''r:al@x.io:''))"
    by (simp add: alice_def bearer_def)
  have acc: "create_access_token clock_service [(''sub'', ''al@x.io'')] (1::nat) = ''a:al@x.io:+''"
    and new: "create_refresh_token clock_service [(''sub'', ''al@x.io'')] (1::nat) = ''r:al@x.io:+''"
    by (simp_all add: clock_service_simps sub_of_def)
  have fresh: "create_refresh_token clock_service [(''sub'', ''al@x.io'')] (1::nat) \<noteq>
      cred_credentials (bearer ''r:al@x.io:'')"
    unfolding new by (simp add: bearer_def)
  note run = refresh_token_rotates [OF dec lk st, of 1, unfolded Let_def acc new two_users_updates]
  from run have first: "refresh_token clock_service 1 (bearer ''r:al@x.io:'') two_users =
        (Inr [(''access_token'', ''a:al@x.io:+''), (''refresh_token'', ''r:al@x.io:+''),
              (''token_type'', ''bearer'')],
         \<lparr>users = [alice\<lparr>user_refresh_token := Some ''r:al@x.io:+''\<rparr>, bob], blacklist = []\<rparr>)"
    by (rule conjunct1)
  from run have "\<forall>env'. ''r:al@x.io:+'' \<noteq> cred_credentials (bearer ''r:al@x.io:'')
                 \<and> decode_refresh_token clock_service (cred_credentials (bearer ''r:al@x.io:'')) env' = Inr ''al@x.io''
               \<longrightarrow> refresh_token clock_service env' (bearer ''r:al@x.io:'')
                      \<lparr>users = [alice\<lparr>user_refresh_token := Some ''r:al@x.io:+''\<rparr>, bob], blacklist = []\<rparr> =
                     (Inl (HTTPException 401 ''Invalid refresh token''),
                      \<lparr>users = [alice\<lparr>user_refresh_token := None\<rparr>, bob], blacklist = []\<rparr>)
                 \<and> get_user_by_email ''al@x.io'' \<lparr>users = [alice\<lparr>user_refresh_token := None\<rparr>, bob], blacklist = []\<rparr> =
                     Some (alice\<lparr>user_refresh_token := None\<rparr>)"
    by blast
  with fresh dec [of 2] have second: "refresh_token clock_service 2 (bearer ''r:al@x.io:'')
        \<lparr>users = [alice\<lparr>user_refresh_token := Some ''r:al@x.io:+''\<rparr>, bob], blacklist = []\<rparr> =
        (Inl (HTTPException 401 ''Invalid refresh token''),
         \<lparr>users = [alice\<lparr>user_refresh_token := None\<rparr>, bob], blacklist = []\<rparr>)
     \<and> get_user_by_email ''al@x.io'' \<lparr>users = [alice\<lparr>user_refresh_token := None\<rparr>, bob], blacklist = []\<rparr>
        = Some (alice\<lparr>user_refresh_token := None\<rparr>)"
    unfolding new by blast
  show ?thesis
    using dec [of 1] dec [of 2] lk st first fresh second by simp
qed

text \<open>
  Without those two provisos the replay does not fail as claim C1 has it. At tick 0 the
  clock service issues for alice the very token she holds, so the second presentation of
  that token succeeds like the first and nothing is cleared. With the expiring service the
  first presentation at tick 1 rotates the token, and the second at tick 2 fails in
  \<open>decode_refresh_token\<close>, before the comparison, so the stored token stays the rotated one.
\<close>

theorem refresh_token_replay_counterexample:
  "user_refresh_token alice = Some (cred_credentials (bearer ''r:al@x.io:''))
   \<and> refresh_token clock_service (0::nat) (bearer ''r:al@x.io:'') two_users =
        (Inr [(''access_token'', ''a:al@x.io:''), (''refresh_token'', ''r:al@x.io:''),
              (''token_type'', ''bearer'')], two_users)
   \<and> refresh_token clock_service (0::nat) (bearer ''r:al@x.io:'')
        (snd (refresh_token clock_service (0::nat) (bearer ''r:al@x.io:'') two_users)) =
        (Inr [(''access_token'', ''a:al@x.io:''), (''refresh_token'', ''r:al@x.io:''),
              (''token_type'', ''bearer'')], two_users)
   \<and> refresh_token expiring_service (1::nat) (bearer ''r:al@x.io:'') two_users =
        (Inr [(''access_token'', ''a:al@x.io:+''), (''refresh_token'', ''r:al@x.io:+''),
              (''token_type'', ''bearer'')],
         \<lparr>users = [alice\<lparr>user_refresh_token := Some ''r:al@x.io:+''\<rparr>, bob], blacklist = []\<rparr>)
   \<and> refresh_token expiring_service (2::nat) (bearer ''r:al@x.io:'')
        \<lparr>users = [alice\<lparr>user_refresh_token := Some ''r:al@x.io:+''\<rparr>, bob], blacklist = []\<rparr> =
        (Inl (HTTPException 401 ''Could not validate credentials''),
         \<lparr>users = [alice\<lparr>user_refresh_token := Some ''r:al@x.io:+''\<rparr>, bob], blacklist = []\<rparr>)"
proof -
  have stored: "user_refresh_token alice = Some (cred_credentials (bearer ''r:al@x.io:''))"
    by (simp add: alice_def bearer_def)
  have same_row: "alice\<lparr>user_refresh_token := Some ''r:al@x.io:''\<rparr> = alice"
    by (simp add: alice_def)
  have first: "refresh_token clock_service (0::nat) (bearer ''r:al@x.io:'') two_users =
        (Inr [(''access_token'', ''a:al@x.io:''), (''refresh_token'', ''r:al@x.io:''),
              (''token_type'', ''bearer'')], two_users)"
    using stored
    by (simp add: refresh_token_def Let_def clock_service_simps sub_of_def bearer_def
        two_users_lookups two_users_updates same_row)
      (simp add: two_users_def)
  have issued: "refresh_token expiring_service (1::nat) (bearer ''r:al@x.io:'') two_users =
        (Inr [(''access_token'', ''a:al@x.io:+''), (''refresh_token'', ''r:al@x.io:+''),
              (''token_type'', ''bearer'')],
         \<lparr>users = [alice\<lparr>user_refresh_token := Some ''r:al@x.io:+''\<rparr>, bob], blacklist = []\<rparr>)"
    using stored
    by (simp add: refresh_token_def Let_def expiring_service_def clock_service_simps sub_of_def
        bearer_def two_users_lookups two_users_updates)
  have expired: "refresh_token expiring_service (2::nat) (bearer ''r:al@x.io:'')
        \<lparr>users = [alice\<lparr>user_refresh_token := Some ''r:al@x.io:+''\<rparr>, bob], blacklist = []\<rparr> =
        (Inl (HTTPException 401 ''Could not validate credentials''),
         \<lparr>users = [alice\<lparr>user_refresh_token := Some ''r:al@x.io:+''\<rparr>, bob], blacklist = []\<rparr>)"
    by (simp add: refresh_token_def Let_def expiring_service_def HTTP_401_UNAUTHORIZED_def)
  show ?thesis
    using stored first issued expired by simp
qed

text \<open>
  Claim C2. When the presented token decodes to an email, the user stored under that email
  is found and that user's stored refresh token is not the presented token (it may be
  absent), the refresh handler sets the stored refresh token of the user to \<open>None\<close> and
  fails with 401 "Invalid refresh token".
\<close>

theorem refresh_token_mismatch_clears:
  assumes "decode_refresh_token auth_service (cred_credentials credentials) env = Inr email"
    and "get_user_by_email email db = Some user"
    and "user_refresh_token user \<noteq> Some (cred_credentials credentials)"
  shows "refresh_token auth_service env credentials db =
           (Inl (HTTPException 401 ''Invalid refresh token''), update_token user None db)
         \<and> get_user_by_email email (update_token user None db) =
             Some (user\<lparr>user_refresh_token := None\<rparr>)"
proof -
  have "refresh_token auth_service env credentials db =
          (Inl (HTTPException 401 ''Invalid refresh token''), update_token user None db)"
    using assms by (simp add: refresh_token_def Let_def HTTP_401_UNAUTHORIZED_def)
  moreover have "get_user_by_email email (update_token user None db) =
      Some (user\<lparr>user_refresh_token := None\<rparr>)"
    using assms(2) by (rule get_user_by_email_update_token)
  ultimately show ?thesis by simp
qed

theorem refresh_token_mismatch_clears_witness:
  "decode_refresh_token clock_service (cred_credentials (bearer ''r:al@x.io:+'')) (3::nat) = Inr ''al@x.io''
   \<and> get_user_by_email ''al@x.io'' two_users = Some alice
   \<and> user_refresh_token alice \<noteq> Some (cred_credentials (bearer ''r:al@x.io:+''))
   \<and> refresh_token clock_service 3 (bearer ''r:al@x.io:+'') two_users =
        (Inl (HTTPException 401 ''Invalid refresh token''),
         \<lparr>users = [alice\<lparr>user_refresh_token := None\<rparr>, bob], blacklist = []\<rparr>)
   \<and> get_user_by_email ''al@x.io'' \<lparr>users = [alice\<lparr>user_refresh_token := None\<rparr>, bob], blacklist = []\<rparr>
        = Some (alice\<lparr>user_refresh_token := None\<rparr>)"
proof -
  have dec: "decode_refresh_token clock_service (cred_credentials (bearer ''r:al@x.io:+'')) (3::nat) =
      Inr ''al@x.io''"
    by (simp add: clock_service_simps bearer_def)
  have lk: "get_user_by_email ''al@x.io'' two_users = Some alice"
    by (rule two_users_lookups)
  have st: "user_refresh_token alice \<noteq> Some (cred_credentials (bearer ''r:al@x.io:+''))"
    by (simp add: alice_def bearer_def)
  note run = refresh_token_mismatch_clears [OF dec lk st, unfolded two_users_updates]
  show ?thesis
    using dec lk st run by simp
qed

text \<open>
  Claim C3. The login handler tests its failure conditions in this order: an unknown
  username fails with 401 "Invalid email" whatever the password is; a known username whose
  password does not verify fails with 401 "Invalid password" whether or not the user is
  banned; a known username whose password verifies and whose ban flag is set fails with 401
  "You were banned by an administrator".
\<close>

theorem login_failure_order:
  "(get_user_by_username (form_username body) db = None \<longrightarrow>
      fst (login auth_service env body db) = Inl (HTTPException 401 ''Invalid email''))
   \<and> (\<forall>user. get_user_by_username (form_username body) db = Some user
          \<and> \<not> verify_password auth_service (form_password body) (user_password user) env
        \<longrightarrow> fst (login auth_service env body db) = Inl (HTTPException 401 ''Invalid password''))
   \<and> (\<forall>user. get_user_by_username (form_username body) db = Some user
          \<and> verify_password auth_service (form_password body) (user_password user) env
          \<and> user_ban user
        \<longrightarrow> fst (login auth_service env body db) =
              Inl (HTTPException 401 ''You were banned by an administrator''))"
  by (simp add: login_def HTTP_401_UNAUTHORIZED_def)

theorem login_failure_order_witness:
  "get_user_by_username (form_username \<lparr>form_username = ''carol'', form_password = ''pw2''\<rparr>) two_users = None
   \<and> fst (login clock_service (0::nat) \<lparr>form_username = ''carol'', form_password = ''pw2''\<rparr> two_users) =
        Inl (HTTPException 401 ''Invalid email'')
   \<and> get_user_by_username (form_username \<lparr>form_username = ''bob'', form_password = ''bad''\<rparr>) two_users = Some bob
   \<and> \<not> verify_password clock_service (form_password \<lparr>form_username = ''bob'', form_password = ''bad''\<rparr>)
          (user_password bob) (0::nat)
   \<and> user_ban bob
   \<and> fst (login clock_service (0::nat) \<lparr>form_username = ''bob'', form_password = ''bad''\<rparr> two_users) =
        Inl (HTTPException 401 ''Invalid password'')
   \<and> get_user_by_username (form_username \<lparr>form_username = ''bob'', form_password = ''pw2''\<rparr>) two_users = Some bob
   \<and> verify_password clock_service (form_password \<lparr>form_username = ''bob'', form_password = ''pw2''\<rparr>)
        (user_password bob) (0::nat)
   \<and> fst (login clock_service (0::nat) \<lparr>form_username = ''bob'', form_password = ''pw2''\<rparr> two_users) =
        Inl (HTTPException 401 ''You were banned by an administrator'')"
proof -
  let ?carol = "\<lparr>form_username = ''carol'', form_password = ''pw2''\<rparr>"
  let ?bad = "\<lparr>form_username = ''bob'', form_password = ''bad''\<rparr>"
  let ?good = "\<lparr>form_username = ''bob'', form_password = ''pw2''\<rparr>"
  have unknown: "get_user_by_username (form_username ?carol) two_users = None"
    by (simp add: two_users_lookups)
  have known_bad: "get_user_by_username (form_username ?bad) two_users = Some bob"
    and known_good: "get_user_by_username (form_username ?good) two_users = Some bob"
    by (simp_all add: two_users_lookups)
  have wrong: "\<not> verify_password clock_service (form_password ?bad) (user_password bob) (0::nat)"
    and right: "verify_password clock_service (form_password ?good) (user_password bob) (0::nat)"
    and banned: "user_ban bob"
    by (simp_all add: clock_service_simps bob_def)
  have c1: "fst (login clock_service (0::nat) ?carol two_users) = Inl (HTTPException 401 ''Invalid email'')"
    using login_failure_order [of ?carol two_users clock_service 0] unknown by blast
  have c2: "fst (login clock_service (0::nat) ?bad two_users) = Inl (HTTPException 401 ''Invalid password'')"
    using login_failure_order [of ?bad two_users clock_service 0] known_bad wrong by blast
  have c3: "fst (login clock_service (0::nat) ?good two_users) =
      Inl (HTTPException 401 ''You were banned by an administrator'')"
    using login_failure_order [of ?good two_users clock_service 0] known_good right banned by blast
  show ?thesis
    using unknown known_bad known_good wrong right banned c1 c2 c3 by blast
qed

text \<open>
  Claim C4. A login with a known username, a password that verifies and no ban returns
  the object with keys \<open>access_token\<close>, \<open>refresh_token\<close> and \<open>token_type\<close> = "bearer", where
  both tokens are the ones the service issues for the claims \<open>{"sub": user.email}\<close>, and the
  stored refresh token of the user is the new refresh token afterwards, whatever it was
  before.
\<close>

theorem login_issues_tokens:
  assumes "get_user_by_username (form_username body) db = Some user"
    and "verify_password auth_service (form_password body) (user_password user) env"
    and "\<not> user_ban user"
  shows "let access_token = create_access_token auth_service [(''sub'', user_email user)] env;
             refresh = create_refresh_token auth_service [(''sub'', user_email user)] env;
             db' = update_token user (Some refresh) db
         in login auth_service env body db =
              (Inr [(''access_token'', access_token), (''refresh_token'', refresh),
                    (''token_type'', ''bearer'')], db')
          \<and> get_user_by_username (form_username body) db' =
              Some (user\<lparr>user_refresh_token := Some refresh\<rparr>)"
proof -
  have "get_user_by_username (form_username body) (update_token user (Some refresh) db) =
      Some (user\<lparr>user_refresh_token := Some refresh\<rparr>)" for refresh
    using assms(1) by (rule get_user_by_username_update_token)
  then show ?thesis
    using assms by (simp add: login_def Let_def)
qed

theorem login_issues_tokens_witness:
  "get_user_by_username (form_username \<lparr>form_username = ''alice'', form_password = ''pw1''\<rparr>) two_users = Some alice
   \<and> verify_password clock_service (form_password \<lparr>form_username = ''alice'', form_password = ''pw1''\<rparr>)
        (user_password alice) (1::nat)
   \<and> \<not> user_ban alice
   \<and> login clock_service 1 \<lparr>form_username = ''alice'', form_password = ''pw1''\<rparr> two_users =
        (Inr [(''access_token'', ''a:al@x.io:+''), (''refresh_token'', ''r:al@x.io:+''),
              (''token_type'', ''bearer'')],
         \<lparr>users = [alice\<lparr>user_refresh_token := Some ''r:al@x.io:+''\<rparr>, bob], blacklist = []\<rparr>)
   \<and> get_user_by_username ''alice''
        \<lparr>users = [alice\<lparr>user_refresh_token := Some ''r:al@x.io:+''\<rparr>, bob], blacklist = []\<rparr> =
        Some (alice\<lparr>user_refresh_token := Some ''r:al@x.io:+''\<rparr>)"
proof -
  let ?body = "\<lparr>form_username = ''alice'', form_password = ''pw1''\<rparr>"
  have lk: "get_user_by_username (form_username ?body) two_users = Some alice"
    by (simp add: two_users_lookups)
  have ok: "verify_password clock_service (form_password ?body) (user_password alice) (1::nat)"
    by (simp add: clock_service_simps alice_def)
  have free: "\<not> user_ban alice"
    by (simp add: alice_def)
  have acc: "create_access_token clock_service [(''sub'', user_email alice)] (1::nat) = ''a:al@x.io:+''"
    and new: "create_refresh_token clock_service [(''sub'', user_email alice)] (1::nat) = ''r:al@x.io:+''"
    by (simp_all add: clock_service_simps sub_of_def alice_def)
  have name: "form_username ?body = ''alice''"
    by simp
  note run = login_issues_tokens [OF lk ok free, unfolded Let_def acc new two_users_updates name]
  show ?thesis
    using lk ok free run by blast
qed

text \<open>
  Claim C5. A signup whose username belongs to a stored user fails with 409 "Account
  already exists" and leaves the database as it was: no user record is created.
\<close>

theorem signup_conflict:
  assumes "get_user_by_username (schema_full_name body) db = Some user"
  shows "signup auth_service env body db =
           (Inl (HTTPException 409 ''Account already exists''), db)"
  using assms by (simp add: signup_def HTTP_409_CONFLICT_def)

theorem signup_conflict_witness:
  "get_user_by_username
     (schema_full_name \<lparr>schema_full_name = ''alice'', schema_email = ''other@x.io'', schema_password = ''pw9''\<rparr>)
     two_users = Some alice
   \<and> signup clock_service (0::nat)
        \<lparr>schema_full_name = ''alice'', schema_email = ''other@x.io'', schema_password = ''pw9''\<rparr> two_users =
        (Inl (HTTPException 409 ''Account already exists''), two_users)"
proof -
  let ?body = "\<lparr>schema_full_name = ''alice'', schema_email = ''other@x.io'', schema_password = ''pw9''\<rparr>"
  have taken: "get_user_by_username (schema_full_name ?body) two_users = Some alice"
    by (simp add: two_users_lookups)
  show ?thesis
    using taken signup_conflict [OF taken, of clock_service 0] by blast
qed




text \<open>
  Claim C7. The logout handler returns the message "Logout successful.", appends exactly
  one blacklist entry, the pair of the user's id and the user's refresh token, and leaves
  every stored user, the stored refresh token included, as it was.
\<close>

theorem logout_blacklists:
  "logout user db =
     (Inr [(''message'', ''Logout successful.'')],
      db\<lparr>blacklist := blacklist db @ [(user_id user, user_refresh_token user)]\<rparr>)
   \<and> users (snd (logout user db)) = users db
   \<and> length (blacklist (snd (logout user db))) = Suc (length (blacklist db))"
  by (simp add: logout_def add_token_to_blacklist_def)

theorem logout_blacklists_witness:
  "logout alice two_users =
     (Inr [(''message'', ''Logout successful.'')],
      \<lparr>users = [alice, bob], blacklist = [(1, Some ''r:al@x.io:'')]\<rparr>)"
proof -
  have "two_users\<lparr>blacklist := blacklist two_users @ [(user_id alice, user_refresh_token alice)]\<rparr> =
      \<lparr>users = [alice, bob], blacklist = [(1, Some ''r:al@x.io:'')]\<rparr>"
    by (simp add: two_users_def alice_def)
  then show ?thesis
    using logout_blacklists [of alice two_users] by simp
qed

text \<open>
  Claim C8. A login with a known username and a password that does not verify fails with
  401 "Invalid password" and leaves the database, stored refresh tokens included, as it
  was.
\<close>

theorem login_wrong_password_unchanged:
  assumes "get_user_by_username (form_username body) db = Some user"
    and "\<not> verify_password auth_service (form_password body) (user_password user) env"
  shows "login auth_service env body db = (Inl (HTTPException 401 ''Invalid password''), db)"
  using assms by (simp add: login_def HTTP_401_UNAUTHORIZED_def)

theorem login_wrong_password_unchanged_witness:
  "get_user_by_username (form_username \<lparr>form_username = ''alice'', form_password = ''bad''\<rparr>) two_users = Some alice
   \<and> \<not> verify_password clock_service (form_password \<lparr>form_username = ''alice'', form_password = ''bad''\<rparr>)
          (user_password alice) (0::nat)
   \<and> login clock_service (0::nat) \<lparr>form_username = ''alice'', form_password = ''bad''\<rparr> two_users =
        (Inl (HTTPException 401 ''Invalid password''), two_users)"
proof -
  let ?body = "\<lparr>form_username = ''alice'', form_password = ''bad''\<rparr>"
  have lk: "get_user_by_username (form_username ?body) two_users = Some alice"
    by (simp add: two_users_lookups)
  have wrong: "\<not> verify_password clock_service (form_password ?body) (user_password alice) (0::nat)"
    by (simp add: clock_service_simps alice_def)
  show ?thesis
    using lk wrong login_wrong_password_unchanged [OF lk wrong] by blast
qed

text \<open>
  Claim C9. When the presented token decodes to an email, the refresh handler ends in the
  \<open>AttributeError\<close> of reading \<open>refresh_token\<close> on \<open>None\<close>, and not in an HTTP error, exactly
  when no stored user has that email; the database is unchanged in that case.
\<close>

theorem refresh_token_unknown_email:
  assumes "decode_refresh_token auth_service (cred_credentials credentials) env = Inr email"
  shows "(get_user_by_email email db = None \<longrightarrow>
            refresh_token auth_service env credentials db =
              (Inl (AttributeError ''refresh_token''), db))
         \<and> ((\<exists>a. fst (refresh_token auth_service env credentials db) = Inl (AttributeError a))
              = (get_user_by_email email db = None))"
  using assms by (auto simp: refresh_token_def Let_def split: option.splits)

theorem refresh_token_unknown_email_witness:
  "decode_refresh_token clock_service (cred_credentials (bearer ''r:carol@x.io:'')) (0::nat) = Inr ''carol@x.io''
   \<and> get_user_by_email ''carol@x.io'' two_users = None
   \<and> refresh_token clock_service (0::nat) (bearer ''r:carol@x.io:'') two_users =
        (Inl (AttributeError ''refresh_token''), two_users)"
proof -
  have dec: "decode_refresh_token clock_service (cred_credentials (bearer ''r:carol@x.io:'')) (0::nat) =
      Inr ''carol@x.io''"
    by (simp add: clock_service_simps bearer_def)
  have missing: "get_user_by_email ''carol@x.io'' two_users = None"
    by (rule two_users_lookups)
  show ?thesis
    using dec missing refresh_token_unknown_email [OF dec, of two_users] by blast
qed

text \<open>
  Claim C10. The refresh handler never consults the ban flag: on two databases that differ
  only in ban flags it gives the same outcome and leaves databases that again differ only
  in ban flags, and it leaves every ban flag as it was. In particular, for a banned user
  whose stored refresh token is the presented one it returns a new token pair and stores
  the new refresh token, while a login of the same user with a password that verifies
  fails with 401 "You were banned by an administrator" and changes nothing.
\<close>

theorem refresh_token_ignores_ban:
  "(differ_only_in_ban db1 db2 \<longrightarrow>
      fst (refresh_token auth_service env credentials db1) =
        fst (refresh_token auth_service env credentials db2)
      \<and> differ_only_in_ban (snd (refresh_token auth_service env credentials db1))
          (snd (refresh_token auth_service env credentials db2)))
   \<and> map user_ban (users (snd (refresh_token auth_service env credentials db))) =
       map user_ban (users db)
   \<and> (decode_refresh_token auth_service (cred_credentials credentials) env = Inr email
        \<and> get_user_by_email email db = Some user
        \<and> user_refresh_token user = Some (cred_credentials credentials)
        \<and> user_ban user \<longrightarrow>
      refresh_token auth_service env credentials db =
        (Inr [(''access_token'', create_access_token auth_service [(''sub'', email)] env),
              (''refresh_token'', create_refresh_token auth_service [(''sub'', email)] env),
              (''token_type'', ''bearer'')],
         update_token user (Some (create_refresh_token auth_service [(''sub'', email)] env)) db)
      \<and> (\<forall>body env'. get_user_by_username (form_username body) db = Some user
             \<and> verify_password auth_service (form_password body) (user_password user) env'
           \<longrightarrow> login auth_service env' body db =
                 (Inl (HTTPException 401 ''You were banned by an administrator''), db)))"
proof -
  have a: "refresh_token auth_service env credentials db =
        (Inr [(''access_token'', create_access_token auth_service [(''sub'', email)] env),
              (''refresh_token'', create_refresh_token auth_service [(''sub'', email)] env),
              (''token_type'', ''bearer'')],
         update_token user (Some (create_refresh_token auth_service [(''sub'', email)] env)) db)"
    if "decode_refresh_token auth_service (cred_credentials credentials) env = Inr email"
      and "get_user_by_email email db = Some user"
      and "user_refresh_token user = Some (cred_credentials credentials)"
    using that by (simp add: refresh_token_def Let_def)
  have b: "login auth_service env' body db =
      (Inl (HTTPException 401 ''You were banned by an administrator''), db)"
    if "user_ban user" and "get_user_by_username (form_username body) db = Some user"
      and "verify_password auth_service (form_password body) (user_password user) env'"
    for body env'
    using that by (simp add: login_def HTTP_401_UNAUTHORIZED_def)
  show ?thesis
    using a b refresh_token_differ_only_in_ban [of db1 db2 auth_service env credentials]
      refresh_token_keeps_ban [of auth_service env credentials db]
    by blast
qed

theorem refresh_token_ignores_ban_witness:
  "decode_refresh_token clock_service (cred_credentials (bearer ''r:bob@x.io:'')) (1::nat) = Inr ''bob@x.io''
   \<and> get_user_by_email ''bob@x.io'' two_users = Some bob
   \<and> user_refresh_token bob = Some (cred_credentials (bearer ''r:bob@x.io:''))
   \<and> user_ban bob
   \<and> refresh_token clock_service 1 (bearer ''r:bob@x.io:'') two_users =
        (Inr [(''access_token'', ''a:bob@x.io:+''), (''refresh_token'', ''r:bob@x.io:+''),
              (''token_type'', ''bearer'')],
         \<lparr>users = [alice, bob\<lparr>user_refresh_token := Some ''r:bob@x.io:+''\<rparr>], blacklist = []\<rparr>)
   \<and> get_user_by_username (form_username \<lparr>form_username = ''bob'', form_password = ''pw2''\<rparr>) two_users = Some bob
   \<and> verify_password clock_service (form_password \<lparr>form_username = ''bob'', form_password = ''pw2''\<rparr>)
        (user_password bob) (1::nat)
   \<and> login clock_service 1 \<lparr>form_username = ''bob'', form_password = ''pw2''\<rparr> two_users =
        (Inl (HTTPException 401 ''You were banned by an administrator''), two_users)
   \<and> differ_only_in_ban two_users \<lparr>users = [alice, bob\<lparr>user_ban := False\<rparr>], blacklist = []\<rparr>
   \<and> fst (refresh_token clock_service 1 (bearer ''r:bob@x.io:'')
            \<lparr>users = [alice, bob\<lparr>user_ban := False\<rparr>], blacklist = []\<rparr>) =
        fst (refresh_token clock_service 1 (bearer ''r:bob@x.io:'') two_users)
   \<and> differ_only_in_ban (snd (refresh_token clock_service 1 (bearer ''r:bob@x.io:'') two_users))
        (snd (refresh_token clock_service 1 (bearer ''r:bob@x.io:'')
               \<lparr>users = [alice, bob\<lparr>user_ban := False\<rparr>], blacklist = []\<rparr>))
   \<and> map user_ban (users (snd (refresh_token clock_service 1 (bearer ''r:bob@x.io:'') two_users))) =
        map user_ban (users two_users)"
proof -
  let ?body = "\<lparr>form_username = ''bob'', form_password = ''pw2''\<rparr>"
  let ?db2 = "\<lparr>users = [alice, bob\<lparr>user_ban := False\<rparr>], blacklist = []\<rparr>"
  have dec: "decode_refresh_token clock_service (cred_credentials (bearer ''r:bob@x.io:'')) (1::nat) =
      Inr ''bob@x.io''"
    by (simp add: clock_service_simps bearer_def)
  have lk: "get_user_by_email ''bob@x.io'' two_users = Some bob"
    by (rule two_users_lookups)
  have st: "user_refresh_token bob = Some (cred_credentials (bearer ''r:bob@x.io:''))"
    by (simp add: bob_def bearer_def)
  have banned: "user_ban bob"
    by (simp add: bob_def)
  have by_name: "get_user_by_username (form_username ?body) two_users = Some bob"
    by (simp add: two_users_lookups)
  have ok: "verify_password clock_service (form_password ?body) (user_password bob) (1::nat)"
    by (simp add: clock_service_simps bob_def)
  have acc: "create_access_token clock_service [(''sub'', ''bob@x.io'')] (1::nat) = ''a:bob@x.io:+''"
    and new: "create_refresh_token clock_service [(''sub'', ''bob@x.io'')] (1::nat) = ''r:bob@x.io:+''"
    by (simp_all add: clock_service_simps sub_of_def)
  have differ: "differ_only_in_ban two_users ?db2"
    by (simp add: differ_only_in_ban_def two_users_def)
  note run = refresh_token_ignores_ban [of two_users ?db2 clock_service 1
      "bearer ''r:bob@x.io:''" two_users "''bob@x.io''" bob, unfolded acc new two_users_updates]
  have same: "fst (refresh_token clock_service 1 (bearer ''r:bob@x.io:'') ?db2) =
        fst (refresh_token clock_service 1 (bearer ''r:bob@x.io:'') two_users)"
    and related: "differ_only_in_ban (snd (refresh_token clock_service 1 (bearer ''r:bob@x.io:'') two_users))
        (snd (refresh_token clock_service 1 (bearer ''r:bob@x.io:'') ?db2))"
    using run differ by simp_all
  have kept: "map user_ban (users (snd (refresh_token clock_service 1 (bearer ''r:bob@x.io:'') two_users))) =
        map user_ban (users two_users)"
    using run by blast
  have succeeds: "refresh_token clock_service 1 (bearer ''r:bob@x.io:'') two_users =
        (Inr [(''access_token'', ''a:bob@x.io:+''), (''refresh_token'', ''r:bob@x.io:+''),
              (''token_type'', ''bearer'')],
         \<lparr>users = [alice, bob\<lparr>user_refresh_token := Some ''r:bob@x.io:+''\<rparr>], blacklist = []\<rparr>)"
    using run dec lk st banned by blast
  have rejected: "login clock_service 1 ?body two_users =
        (Inl (HTTPException 401 ''You were banned by an administrator''), two_users)"
    using run dec lk st banned by_name ok by blast
  show ?thesis
    using dec lk st banned by_name ok succeeds rejected differ same related kept by blast
qed

end
